theory Spec2Isabelle
  imports Main
begin

section \<open>Circuit results and the o1js primitives\<close>

text \<open>
  A provable method either returns its public output or makes the circuit unsatisfiable
  (a failed assertion, a value that leaves the range of its type, a division by zero, a
  recursive proof that does not verify). Driver code throws JavaScript errors. All of
  them are values of \<open>error\<close>; a computation is a value of \<open>error + 'a\<close>.
\<close>

datatype error =
    AssertionFailed | Overflow | DivisionByZero | InvalidProof
  | Thrown string | InvalidFactor int

definition bindE :: "error + 'a \<Rightarrow> ('a \<Rightarrow> error + 'b) \<Rightarrow> error + 'b" where
  "bindE m f = (case m of Inl e \<Rightarrow> Inl e | Inr v \<Rightarrow> f v)"

definition assertThat :: "bool \<Rightarrow> error + unit" where
  "assertThat b = (if b then Inr () else Inl AssertionFailed)"

text \<open>
  A \<open>Field\<close> is an element of the scalar field, kept as its canonical representative.
  \<open>Poseidon.hash\<close> belongs to the proof system; every definition that hashes takes it
  as the parameter \<open>poseidon\<close>.
\<close>

type_synonym Field = nat

definition fieldOrder :: nat where
  "fieldOrder = 28948022309329048855892746252171976963363056481941560715954676764349967630337"

text \<open>
  An o1js \<open>Int64\<close> is a sign and a \<open>UInt64\<close> magnitude, so its values are the integers
  strictly between \<open>-2^64\<close> and \<open>2^64\<close>. \<open>add\<close>, \<open>sub\<close> and \<open>mul\<close> compute in the
  field and range-check the result; \<open>div\<close> divides the magnitudes (truncating towards
  zero) and multiplies the signs, and a zero divisor is unsatisfiable. A value is kept as
  the integer it denotes: \<open>Provable.equal\<close> on two results of \<open>mul\<close> compares those
  integers.
\<close>

type_synonym Int64 = int

definition int64_check :: "int \<Rightarrow> error + Int64" where
  "int64_check v = (if - (2 ^ 64) < v \<and> v < 2 ^ 64 then Inr v else Inl Overflow)"

definition int64_add :: "Int64 \<Rightarrow> Int64 \<Rightarrow> error + Int64" where
  "int64_add a b = int64_check (a + b)"

definition int64_sub :: "Int64 \<Rightarrow> Int64 \<Rightarrow> error + Int64" where
  "int64_sub a b = int64_check (a - b)"

definition int64_mul :: "Int64 \<Rightarrow> Int64 \<Rightarrow> error + Int64" where
  "int64_mul a b = int64_check (a * b)"

definition int64_div :: "Int64 \<Rightarrow> Int64 \<Rightarrow> error + Int64" where
  "int64_div a b =
     (if b = 0 then Inl DivisionByZero else Inr (sgn a * sgn b * (\<bar>a\<bar> div \<bar>b\<bar>)))"

definition uint64_mul :: "nat \<Rightarrow> nat \<Rightarrow> error + nat" where
  "uint64_mul a b = (if a * b < 2 ^ 64 then Inr (a * b) else Inl Overflow)"

definition magnitude :: "Int64 \<Rightarrow> nat" where
  "magnitude v = nat \<bar>v\<bar>"

definition toField :: "Int64 \<Rightarrow> Field" where
  "toField v = nat (v mod int fieldOrder)"

text \<open>
  Modelled from the spec: the comparison helpers of \<open>Int64Prover\<close> (math/Provers.js) are
  not among the source files. The spec reads them as the signed comparisons
  \<open>min(x1,x2) \<le> x \<le> max(x1,x2)\<close>, \<open>yi > y\<close>, \<open>x < xi + ...\<close> and the test for a zero
  denominator.
\<close>

definition provableIsInt64XGreaterThanY :: "Int64 \<Rightarrow> Int64 \<Rightarrow> bool" where
  "provableIsInt64XGreaterThanY x y = (x > y)"

definition provableIsInt64XLessThanOrEqualY :: "Int64 \<Rightarrow> Int64 \<Rightarrow> bool" where
  "provableIsInt64XLessThanOrEqualY x y = (x \<le> y)"

definition provableIsInt64XLessThanY :: "Int64 \<Rightarrow> Int64 \<Rightarrow> bool" where
  "provableIsInt64XLessThanY x y = (x < y)"

definition provableIsInt64XEqualToZero :: "Int64 \<Rightarrow> bool" where
  "provableIsInt64XEqualToZero x = (x = 0)"

text \<open>
  A recursive proof carries its public output; \<open>verify\<close> fails the circuit when the
  proof is not a valid one.
\<close>

record 'a SelfProof =
  publicOutput :: 'a
  isValidProof :: bool

definition verify :: "'a SelfProof \<Rightarrow> error + unit" where
  "verify p = (if isValidProof p then Inr () else Inl InvalidProof)"

section \<open>Data structures\<close>

record GeographicalPoint =
  latitude :: Int64
  longitude :: Int64
  factor :: Int64

record NoncedGeographicalPoint =
  point :: GeographicalPoint
  nonce :: Field

record ThreePointPolygon =
  vertice1 :: GeographicalPoint
  vertice2 :: GeographicalPoint
  vertice3 :: GeographicalPoint

record CoordinateProofState =
  polygonCommitment :: Field
  coordinatesCommitment :: Field
  isInPolygon :: bool

record CoordinatePolygonInclusionExclusionProof =
  insidePolygonCommitment :: Field
  outsidePolygonCommitment :: Field
  coordinatesCommitment :: Field

record ProoveCoordinatesIn3dPolygonArgumentsValues =
  point :: GeographicalPoint
  polygon :: ThreePointPolygon

definition GeographicalPoint_hash :: "(Field list \<Rightarrow> Field) \<Rightarrow> GeographicalPoint \<Rightarrow> Field" where
  "GeographicalPoint_hash poseidon g =
     poseidon [toField (latitude g), toField (longitude g), toField (factor g)]"

definition GeographicalPoint_assertIsValid :: "GeographicalPoint \<Rightarrow> error + unit" where
  "GeographicalPoint_assertIsValid g =
     bindE (int64_div (latitude g) (factor g)) (\<lambda>q.
     bindE (assertThat (magnitude q \<le> 90)) (\<lambda>_.
     bindE (assertThat (magnitude (longitude g) \<le> 180)) (\<lambda>_.
     assertThat (magnitude (factor g) \<le> 10 ^ 7))))"

definition NoncedGeographicalPoint_hash ::
  "(Field list \<Rightarrow> Field) \<Rightarrow> NoncedGeographicalPoint \<Rightarrow> Field" where
  "NoncedGeographicalPoint_hash poseidon p =
     poseidon [GeographicalPoint_hash poseidon (NoncedGeographicalPoint.point p), nonce p]"

definition NoncedGeographicalPoint_assertIsValid :: "NoncedGeographicalPoint \<Rightarrow> error + unit" where
  "NoncedGeographicalPoint_assertIsValid p =
     GeographicalPoint_assertIsValid (NoncedGeographicalPoint.point p)"

definition ThreePointPolygon_hash :: "(Field list \<Rightarrow> Field) \<Rightarrow> ThreePointPolygon \<Rightarrow> Field" where
  "ThreePointPolygon_hash poseidon t =
     poseidon [GeographicalPoint_hash poseidon (vertice1 t),
               GeographicalPoint_hash poseidon (vertice2 t),
               GeographicalPoint_hash poseidon (vertice3 t)]"

section \<open>Argument validation\<close>

definition verifyProoveCoordinatesIn3dPolygonArguments ::
  "NoncedGeographicalPoint \<Rightarrow> ThreePointPolygon \<Rightarrow>
     error + ProoveCoordinatesIn3dPolygonArgumentsValues" where
  "verifyProoveCoordinatesIn3dPolygonArguments p t =
     bindE (NoncedGeographicalPoint_assertIsValid p) (\<lambda>_.
     bindE (GeographicalPoint_assertIsValid (vertice1 t)) (\<lambda>_.
     bindE (GeographicalPoint_assertIsValid (vertice2 t)) (\<lambda>_.
     bindE (GeographicalPoint_assertIsValid (vertice3 t)) (\<lambda>_.
     let expectedFactor = factor (NoncedGeographicalPoint.point p) in
     bindE (assertThat (expectedFactor = factor (vertice1 t))) (\<lambda>_.
     bindE (assertThat (expectedFactor = factor (vertice2 t))) (\<lambda>_.
     bindE (assertThat (expectedFactor = factor (vertice3 t))) (\<lambda>_.
     Inr \<lparr>ProoveCoordinatesIn3dPolygonArgumentsValues.point = NoncedGeographicalPoint.point p,
          polygon = t\<rparr>)))))))"

section \<open>The point-in-polygon predicate\<close>

definition isPointOnEdgeProvable ::
  "NoncedGeographicalPoint \<Rightarrow> GeographicalPoint \<Rightarrow> GeographicalPoint \<Rightarrow> error + bool" where
  "isPointOnEdgeProvable p v1 v2 =
     (let x = latitude (NoncedGeographicalPoint.point p);
          y = longitude (NoncedGeographicalPoint.point p);
          x1 = latitude v1; y1 = longitude v1;
          x2 = latitude v2; y2 = longitude v2;
          isX1LargerThanX2 = provableIsInt64XGreaterThanY x1 x2;
          maximumX = (if isX1LargerThanX2 then x1 else x2);
          minimumX = (if isX1LargerThanX2 then x2 else x1);
          isY1LargerThanY2 = provableIsInt64XGreaterThanY y1 y2;
          maximumY = (if isY1LargerThanY2 then y1 else y2);
          minimumY = (if isY1LargerThanY2 then y2 else y1);
          withinXBounds = (provableIsInt64XLessThanOrEqualY x maximumX
                           \<and> provableIsInt64XLessThanOrEqualY minimumX x);
          withinYBounds = (provableIsInt64XLessThanOrEqualY y maximumY
                           \<and> provableIsInt64XLessThanOrEqualY minimumY y)
      in bindE (int64_sub x2 x1) (\<lambda>xDifference1.
         bindE (int64_sub x x1) (\<lambda>xDifference2.
         bindE (int64_sub y2 y1) (\<lambda>yDiffernce1.
         bindE (int64_sub y y1) (\<lambda>yDiffernce2.
         bindE (int64_mul xDifference1 yDiffernce2) (\<lambda>firstProduct.
         bindE (int64_mul xDifference2 yDiffernce1) (\<lambda>secondProduct.
         let onLine = (firstProduct = secondProduct)
         in Inr (withinXBounds \<and> withinYBounds \<and> onLine))))))))"

text \<open>
  One pass of the body of the ray-casting loop, for the vertices at indices \<open>i\<close> and
  \<open>j\<close>. It returns the values the body holds when it ends: the denominator it divided
  by, the two conditions, the intersection bit and the updated accumulator. Of the values
  the body computes only for \<open>Provable.log\<close>, the product of the magnitudes is kept,
  since its range check can fail; the product of the signs cannot.
\<close>

record RayCastIteration =
  denominator :: Int64
  jointCondition1 :: bool
  jointCondition2 :: bool
  isIntersect :: bool
  inside :: bool

definition rayCastIteration ::
  "Int64 \<Rightarrow> Int64 \<Rightarrow> GeographicalPoint \<Rightarrow> GeographicalPoint \<Rightarrow> bool \<Rightarrow> error + RayCastIteration" where
  "rayCastIteration x y vi vj inside0 =
     (let xi = latitude vi; yi = longitude vi;
          xj = latitude vj; yj = longitude vj;
          condition1 = provableIsInt64XGreaterThanY yi y;
          condition2 = provableIsInt64XGreaterThanY yj y;
          jointCondition1' = (\<not> (if condition1 = condition2 then True else False))
      in bindE (int64_sub xj xi) (\<lambda>leftOperand.
         bindE (int64_sub y yi) (\<lambda>rightOperand.
         bindE (uint64_mul (magnitude leftOperand) (magnitude rightOperand)) (\<lambda>magnitudeProduct.
         bindE (int64_mul leftOperand rightOperand) (\<lambda>numerator.
         bindE (int64_sub yj yi) (\<lambda>denominator0.
         let isHorizontalEdge = provableIsInt64XEqualToZero denominator0;
             denominator' = (if isHorizontalEdge then 1 else denominator0)
         in bindE (int64_div numerator denominator') (\<lambda>result_before_addition.
            bindE (int64_add result_before_addition xi) (\<lambda>result.
            let jointCondition2_0 = provableIsInt64XLessThanY x result;
                jointCondition2' = (if isHorizontalEdge then False else jointCondition2_0);
                isIntersect' = (if jointCondition1' \<and> jointCondition2' then True else False);
                inside' = (if isIntersect' then \<not> inside0 else inside0)
            in Inr \<lparr>denominator = denominator',
                    jointCondition1 = jointCondition1',
                    jointCondition2 = jointCondition2',
                    isIntersect = isIntersect',
                    inside = inside'\<rparr>))))))))"

text \<open>
  The loop \<open>for (i = 0, j = vertices.length - 1; i < vertices.length; j = i++)\<close>.
\<close>

function rayCastLoop ::
  "Int64 \<Rightarrow> Int64 \<Rightarrow> GeographicalPoint list \<Rightarrow> nat \<Rightarrow> nat \<Rightarrow> bool \<Rightarrow> error + bool" where
  "rayCastLoop x y vertices i j inside0 =
     (if i < length vertices
      then bindE (rayCastIteration x y (vertices ! i) (vertices ! j) inside0) (\<lambda>it.
             rayCastLoop x y vertices (Suc i) i (inside it))
      else Inr inside0)"
  by pat_completeness auto
termination
  by (relation "measure (\<lambda>(x, y, vertices, i, j, inside0). length vertices - i)") auto

declare rayCastLoop.simps [simp del]

definition isPointIn3PointPolygon ::
  "NoncedGeographicalPoint \<Rightarrow> ThreePointPolygon \<Rightarrow> error + bool" where
  "isPointIn3PointPolygon p t =
     (let x = latitude (NoncedGeographicalPoint.point p);
          y = longitude (NoncedGeographicalPoint.point p);
          vertices = [vertice1 t, vertice2 t, vertice3 t]
      in bindE (isPointOnEdgeProvable p (vertice1 t) (vertice2 t)) (\<lambda>isPointOnEdge1.
         bindE (isPointOnEdgeProvable p (vertice2 t) (vertice3 t)) (\<lambda>isPointOnEdge2.
         bindE (isPointOnEdgeProvable p (vertice3 t) (vertice1 t)) (\<lambda>isPointOnEdge3.
         let isPointLocatedOnEdge = (isPointOnEdge1 \<or> isPointOnEdge2 \<or> isPointOnEdge3)
         in bindE (rayCastLoop x y vertices 0 (length vertices - 1) False) (\<lambda>inside1.
            Inr (if isPointLocatedOnEdge then True else inside1))))))"

definition proveCoordinatesIn3PointPolygon ::
  "(Field list \<Rightarrow> Field) \<Rightarrow> NoncedGeographicalPoint \<Rightarrow> ThreePointPolygon \<Rightarrow>
     error + CoordinateProofState" where
  "proveCoordinatesIn3PointPolygon poseidon p t =
     bindE (isPointIn3PointPolygon p t) (\<lambda>isInPolygon'.
     let polygonCommitment' = ThreePointPolygon_hash poseidon t;
         coordinatesCommitment' = NoncedGeographicalPoint_hash poseidon p
     in Inr \<lparr>polygonCommitment = polygonCommitment',
             CoordinateProofState.coordinatesCommitment = coordinatesCommitment',
             isInPolygon = isInPolygon'\<rparr>)"

section \<open>The recursive combiners\<close>

definition AND ::
  "(Field list \<Rightarrow> Field) \<Rightarrow> CoordinateProofState SelfProof \<Rightarrow> CoordinateProofState SelfProof \<Rightarrow>
     error + CoordinateProofState" where
  "AND poseidon proof1 proof2 =
     bindE (verify proof1) (\<lambda>_.
     bindE (verify proof2) (\<lambda>_.
     bindE (assertThat (CoordinateProofState.coordinatesCommitment (publicOutput proof1)
                        = CoordinateProofState.coordinatesCommitment (publicOutput proof2))) (\<lambda>_.
     bindE (assertThat (polygonCommitment (publicOutput proof1)
                        \<noteq> polygonCommitment (publicOutput proof2))) (\<lambda>_.
     let expectedSecondProofIsInPolygon =
           (if isInPolygon (publicOutput proof1) then True else False)
     in Inr \<lparr>polygonCommitment =
               poseidon [polygonCommitment (publicOutput proof1),
                         polygonCommitment (publicOutput proof2)],
             CoordinateProofState.coordinatesCommitment =
               CoordinateProofState.coordinatesCommitment (publicOutput proof1),
             isInPolygon = expectedSecondProofIsInPolygon\<rparr>))))"

definition OR ::
  "(Field list \<Rightarrow> Field) \<Rightarrow> CoordinateProofState SelfProof \<Rightarrow> CoordinateProofState SelfProof \<Rightarrow>
     error + CoordinateProofState" where
  "OR poseidon proof1 proof2 =
     bindE (verify proof1) (\<lambda>_.
     bindE (verify proof2) (\<lambda>_.
     bindE (assertThat (CoordinateProofState.coordinatesCommitment (publicOutput proof1)
                        = CoordinateProofState.coordinatesCommitment (publicOutput proof2))) (\<lambda>_.
     bindE (assertThat (polygonCommitment (publicOutput proof1)
                        \<noteq> polygonCommitment (publicOutput proof2))) (\<lambda>_.
     let isInPolygon' =
           (if isInPolygon (publicOutput proof1) \<or> isInPolygon (publicOutput proof2)
            then True else False)
     in Inr \<lparr>polygonCommitment =
               poseidon [polygonCommitment (publicOutput proof1),
                         polygonCommitment (publicOutput proof2)],
             CoordinateProofState.coordinatesCommitment =
               CoordinateProofState.coordinatesCommitment (publicOutput proof1),
             isInPolygon = isInPolygon'\<rparr>))))"

section \<open>The inside/outside rollup\<close>

definition fromCoordinatesInPolygonProof ::
  "CoordinateProofState SelfProof \<Rightarrow> error + CoordinatePolygonInclusionExclusionProof" where
  "fromCoordinatesInPolygonProof proof0 =
     bindE (verify proof0) (\<lambda>_.
     let coodinatesInPolygonProof = publicOutput proof0;
         insideCommitment =
           (if isInPolygon coodinatesInPolygonProof
            then polygonCommitment coodinatesInPolygonProof else 0);
         outsideCommitment =
           (if isInPolygon coodinatesInPolygonProof
            then 0 else polygonCommitment coodinatesInPolygonProof)
     in Inr \<lparr>insidePolygonCommitment = insideCommitment,
             outsidePolygonCommitment = outsideCommitment,
             coordinatesCommitment =
               CoordinateProofState.coordinatesCommitment coodinatesInPolygonProof\<rparr>)"

definition combine ::
  "(Field list \<Rightarrow> Field) \<Rightarrow> CoordinatePolygonInclusionExclusionProof SelfProof \<Rightarrow>
     CoordinatePolygonInclusionExclusionProof SelfProof \<Rightarrow>
     error + CoordinatePolygonInclusionExclusionProof" where
  "combine poseidon proof1 proof2 =
     bindE (verify proof1) (\<lambda>_.
     bindE (verify proof2) (\<lambda>_.
     let proof1PublicOutput = publicOutput proof1;
         proof2PublicOutput = publicOutput proof2
     in bindE (assertThat (coordinatesCommitment proof1PublicOutput
                           = coordinatesCommitment proof2PublicOutput)) (\<lambda>_.
        let isInsidePolygonCommitmentEqual =
              (if insidePolygonCommitment proof1PublicOutput
                  = insidePolygonCommitment proof2PublicOutput then True else False);
            isOutsidePolygonCommitmentEqual =
              (if outsidePolygonCommitment proof1PublicOutput
                  = outsidePolygonCommitment proof2PublicOutput then True else False)
        in bindE (assertThat ((isInsidePolygonCommitmentEqual \<and> isOutsidePolygonCommitmentEqual)
                              = False)) (\<lambda>_.
           let isInsideCommitmentPresentInProof1 =
                 (if insidePolygonCommitment proof1PublicOutput = 0 then False else True);
               isInsideCommitmentPresentInProof2 =
                 (if insidePolygonCommitment proof2PublicOutput = 0 then False else True);
               isOutsideCommitmentPresentInProof1 =
                 (if outsidePolygonCommitment proof1PublicOutput = 0 then False else True);
               isOutsideCommitmentPresentInProof2 =
                 (if outsidePolygonCommitment proof2PublicOutput = 0 then False else True);
               newInsideCommitmentBothPresent =
                 poseidon [insidePolygonCommitment proof1PublicOutput,
                           insidePolygonCommitment proof2PublicOutput];
               newInsideCommitment1 =
                 (if isInsideCommitmentPresentInProof1 \<and> \<not> isInsideCommitmentPresentInProof2
                  then insidePolygonCommitment proof1PublicOutput
                  else newInsideCommitmentBothPresent);
               newInsideCommitment2 =
                 (if \<not> isInsideCommitmentPresentInProof1 \<and> isInsideCommitmentPresentInProof2
                  then insidePolygonCommitment proof2PublicOutput
                  else newInsideCommitment1);
               newInsideCommitment3 =
                 (if \<not> isInsideCommitmentPresentInProof1 \<and> \<not> isInsideCommitmentPresentInProof2
                  then 0
                  else newInsideCommitment2);
               newOutsideCommitmentBothPresent =
                 poseidon [outsidePolygonCommitment proof1PublicOutput,
                           outsidePolygonCommitment proof2PublicOutput];
               newOutsideCommitment1 =
                 (if isOutsideCommitmentPresentInProof1 \<and> \<not> isOutsideCommitmentPresentInProof2
                  then outsidePolygonCommitment proof1PublicOutput
                  else newOutsideCommitmentBothPresent);
               newOutsideCommitment2 =
                 (if \<not> isOutsideCommitmentPresentInProof1 \<and> isInsideCommitmentPresentInProof2
                  then outsidePolygonCommitment proof2PublicOutput
                  else newOutsideCommitment1);
               newInsideCommitment4 =
                 (if \<not> isInsideCommitmentPresentInProof1 \<and> \<not> isInsideCommitmentPresentInProof2
                  then 0
                  else newOutsideCommitment2)
           in Inr \<lparr>insidePolygonCommitment = newInsideCommitment4,
                   outsidePolygonCommitment = newOutsideCommitment2,
                   coordinatesCommitment = coordinatesCommitment proof1PublicOutput\<rparr>))))"

section \<open>The coordinate domain and edge membership, as the spec words them\<close>

text \<open>
  The data model bounds a coordinate by \<open>|lat|/10^f \<le> 90\<close>, \<open>|lon|/10^f \<le> 180\<close> and
  \<open>f \<le> 7\<close>, so the stored integers are at most \<open>90 * 10^7\<close> and \<open>180 * 10^7\<close> in
  magnitude.
\<close>

definition withinCoordinateDomain :: "GeographicalPoint \<Rightarrow> bool" where
  "withinCoordinateDomain g =
     (\<bar>latitude g\<bar> \<le> 900000000 \<and> \<bar>longitude g\<bar> \<le> 1800000000)"

text \<open>
  Edge membership of the spec: inside the bounding box of the edge, and exactly collinear
  with its endpoints.
\<close>

definition edge_membership :: "int \<Rightarrow> int \<Rightarrow> int \<Rightarrow> int \<Rightarrow> int \<Rightarrow> int \<Rightarrow> bool" where
  "edge_membership x y x1 y1 x2 y2 =
     (min x1 x2 \<le> x \<and> x \<le> max x1 x2 \<and> min y1 y2 \<le> y \<and> y \<le> max y1 y2
      \<and> (x2 - x1) * (y - y1) = (x - x1) * (y2 - y1))"

definition onEdge :: "NoncedGeographicalPoint \<Rightarrow> GeographicalPoint \<Rightarrow> GeographicalPoint \<Rightarrow> bool" where
  "onEdge p v1 v2 =
     edge_membership (latitude (NoncedGeographicalPoint.point p))
                     (longitude (NoncedGeographicalPoint.point p))
                     (latitude v1) (longitude v1) (latitude v2) (longitude v2)"

definition atVertex :: "NoncedGeographicalPoint \<Rightarrow> GeographicalPoint \<Rightarrow> bool" where
  "atVertex p v =
     (latitude (NoncedGeographicalPoint.point p) = latitude v
      \<and> longitude (NoncedGeographicalPoint.point p) = longitude v)"

section \<open>ZKCoordinate\<close>

text \<open>
  Modelled from the spec: the base class \<open>ZKNumber\<close> (api/models/ZKNumber.ts) is not among
  the source files. The spec has a coordinate literal converted to a signed integer and a
  factor inferred from its decimal digits; an instance is that pair, and the base
  constructor is the parameter \<open>zkNumber\<close>, which may throw.
\<close>

record ZKNumber =
  normalized :: int
  factor :: int

definition MAX_FACTOR :: int where
  "MAX_FACTOR = 10 ^ 7"

definition ZKCoordinate :: "('i \<Rightarrow> error + ZKNumber) \<Rightarrow> 'i \<Rightarrow> error + ZKNumber" where
  "ZKCoordinate zkNumber val =
     bindE (zkNumber val) (\<lambda>this.
     if ZKNumber.factor this > MAX_FACTOR
     then Inl (InvalidFactor (ZKNumber.factor this))
     else Inr this)"

section \<open>The proof-session driver\<close>

text \<open>
  A field of the driver holds \<open>undefined\<close>, \<open>null\<close> or an object; \<open>===\<close> tells the
  three apart.
\<close>

datatype 'a jsref = Undefined | Null | Object 'a

datatype 'raw ZKGeoPointProviderCircuitProof = ZKGeoPointProviderCircuitProof (proofOf: 'raw)

datatype ('geo, 'ex) ZKExactGeoPointCircuitProof = ZKExactGeoPointCircuitProof 'geo 'ex

datatype ('geo, 'pip, 'poly) ZKGeoPointInPolygonProof = ZKGeoPointInPolygonProof 'geo 'pip 'poly

datatype ('geo, 'md) ZKExactGeolocationMetadataCircuitProof =
  ZKExactGeolocationMetadataCircuitProof 'geo string 'md

text \<open>
  The circuits the driver calls are compiled programs of the proof system; each is a
  parameter that returns a proof or fails.
\<close>

record ('pk, 'sg, 'geo, 'osp, 'raw, 'poly, 'pip, 'ex, 'md) Circuits =
  fromSignature :: "'pk \<Rightarrow> 'sg \<Rightarrow> 'geo \<Rightarrow> error + 'osp"
  fromOracle :: "'osp \<Rightarrow> 'geo \<Rightarrow> error + 'raw"
  proveGeoPointIn3PointPolygon :: "'raw \<Rightarrow> 'poly \<Rightarrow> error + 'pip"
  isInside :: "'pip \<Rightarrow> bool"
  fromGeoPointProvider :: "'raw \<Rightarrow> error + 'ex"
  attachMetadataToGeoPoint :: "'raw \<Rightarrow> string \<Rightarrow> error + 'md"

record ('geo, 'raw, 'poly, 'pip, 'md) ZKGeoPointProver =
  zkValue :: 'geo
  integrationOracleProof :: "'raw ZKGeoPointProviderCircuitProof jsref"
  exactGeolocationMetadataProof :: "('geo, 'md) ZKExactGeolocationMetadataCircuitProof jsref"
  insidePolygonProofs :: "('geo, 'pip, 'poly) ZKGeoPointInPolygonProof list"
  outsidePolygonProofs :: "('geo, 'pip, 'poly) ZKGeoPointInPolygonProof list"
  allProfs :: "'raw ZKGeoPointProviderCircuitProof list"

text \<open>A freshly constructed driver: no field initialiser sets the two proofs.\<close>

definition newZKGeoPointProver :: "'geo \<Rightarrow> ('geo, 'raw, 'poly, 'pip, 'md) ZKGeoPointProver" where
  "newZKGeoPointProver g =
     \<lparr>zkValue = g, integrationOracleProof = Undefined,
      exactGeolocationMetadataProof = Undefined,
      insidePolygonProofs = [], outsidePolygonProofs = [], allProfs = []\<rparr>"

text \<open>Reading \<open>.proof\<close> of a reference: a \<open>TypeError\<close> unless it is an object.\<close>

fun getProof :: "'raw ZKGeoPointProviderCircuitProof jsref \<Rightarrow> error + 'raw" where
  "getProof (Object w) = Inr (proofOf w)"
| "getProof Undefined = Inl (Thrown ''TypeError: Cannot read properties of undefined'')"
| "getProof Null = Inl (Thrown ''TypeError: Cannot read properties of null'')"

definition getIntegrationOracleProofOrError ::
  "('geo, 'raw, 'poly, 'pip, 'md) ZKGeoPointProver \<Rightarrow>
     error + 'raw ZKGeoPointProviderCircuitProof jsref" where
  "getIntegrationOracleProofOrError this =
     (if integrationOracleProof this = Undefined
      then Inl (Thrown ''Integration Oracle proof is not available. Please call authenticateFromIntegrationOracle first.'')
      else Inr (integrationOracleProof this))"

definition exactGeoPointForIntegrationOracle ::
  "('pk, 'sg, 'geo, 'osp, 'raw, 'poly, 'pip, 'ex, 'md) Circuits \<Rightarrow>
   ('geo, 'raw, 'poly, 'pip, 'md) ZKGeoPointProver \<Rightarrow>
     error + ('geo, 'ex) ZKExactGeoPointCircuitProof" where
  "exactGeoPointForIntegrationOracle circuits this =
     bindE (getIntegrationOracleProofOrError this) (\<lambda>oracleProof.
     bindE (getProof oracleProof) (\<lambda>rawProof.
     bindE (fromGeoPointProvider circuits rawProof) (\<lambda>rawExactGeoPointProof.
     Inr (ZKExactGeoPointCircuitProof (zkValue this) rawExactGeoPointProof))))"

definition exactGeoPoint ::
  "('pk, 'sg, 'geo, 'osp, 'raw, 'poly, 'pip, 'ex, 'md) Circuits \<Rightarrow>
   ('geo, 'raw, 'poly, 'pip, 'md) ZKGeoPointProver \<Rightarrow>
     error + ('geo, 'ex) ZKExactGeoPointCircuitProof" where
  "exactGeoPoint circuits this =
     (if integrationOracleProof this = Null
      then Inl (Thrown ''Currently, ExactGeoPoint can only be generated for a ZKGeoPoint that has been authenticated from exactly one source. This will be supported in the future.'')
      else if integrationOracleProof this \<noteq> Null
      then exactGeoPointForIntegrationOracle circuits this
      else Inl (Thrown ''Unsupported or unknown authentication source(s) for exactGeoPoint.''))"

definition authenticateFromIntegrationOracle ::
  "('pk, 'sg, 'geo, 'osp, 'raw, 'poly, 'pip, 'ex, 'md) Circuits \<Rightarrow> 'pk \<Rightarrow> 'sg \<Rightarrow>
   ('geo, 'raw, 'poly, 'pip, 'md) ZKGeoPointProver \<Rightarrow>
     error + ('geo, 'raw, 'poly, 'pip, 'md) ZKGeoPointProver" where
  "authenticateFromIntegrationOracle circuits publicKey signature this =
     (let plainGeoPoint = zkValue this
      in bindE (fromSignature circuits publicKey signature plainGeoPoint)
           (\<lambda>oracleSignatureVerificationProof.
         bindE (fromOracle circuits oracleSignatureVerificationProof plainGeoPoint)
           (\<lambda>oracleGeoPointProviderProof.
         let w = ZKGeoPointProviderCircuitProof oracleGeoPointProviderProof
         in Inr (this\<lparr>integrationOracleProof := Object w,
                      allProfs := allProfs this @ [w]\<rparr>))))"

definition inPolygon ::
  "('pk, 'sg, 'geo, 'osp, 'raw, 'poly, 'pip, 'ex, 'md) Circuits \<Rightarrow> 'poly \<Rightarrow>
   ('geo, 'raw, 'poly, 'pip, 'md) ZKGeoPointProver \<Rightarrow>
     error + ('geo, 'raw, 'poly, 'pip, 'md) ZKGeoPointProver" where
  "inPolygon circuits polygon0 this =
     (if integrationOracleProof this = Undefined
      then Inl (Thrown ''Currently, ExactGeoPoint can only be generated for a ZKGeoPoint that has been authenticated from the Oracle. This will be supported in the future.'')
      else bindE (getProof (integrationOracleProof this)) (\<lambda>geoPointProof.
           bindE (proveGeoPointIn3PointPolygon circuits geoPointProof polygon0)
             (\<lambda>geoPointInPolygonProof.
           let zkPointInPolygonProof =
                 ZKGeoPointInPolygonProof (zkValue this) geoPointInPolygonProof polygon0
           in if isInside circuits geoPointInPolygonProof
              then Inr (this\<lparr>insidePolygonProofs :=
                               insidePolygonProofs this @ [zkPointInPolygonProof]\<rparr>)
              else Inr (this\<lparr>outsidePolygonProofs :=
                               outsidePolygonProofs this @ [zkPointInPolygonProof]\<rparr>))))"

definition attachMetadata ::
  "('pk, 'sg, 'geo, 'osp, 'raw, 'poly, 'pip, 'ex, 'md) Circuits \<Rightarrow> string \<Rightarrow>
   ('geo, 'raw, 'poly, 'pip, 'md) ZKGeoPointProver \<Rightarrow>
     error + ('geo, 'raw, 'poly, 'pip, 'md) ZKGeoPointProver" where
  "attachMetadata circuits metadata this =
     (if integrationOracleProof this = Undefined
      then Inl (Thrown ''In order to attach metadata to a ZKGeoPoint, it must be authenticated from an Integration Oracle. Currently, this is the only supported authentication source, but will be expanded in the future.'')
      else bindE (getProof (integrationOracleProof this)) (\<lambda>rawProof.
           bindE (attachMetadataToGeoPoint circuits rawProof metadata)
             (\<lambda>exactGeolocationMetadataProof'.
           Inr (this\<lparr>exactGeolocationMetadataProof :=
                        Object (ZKExactGeolocationMetadataCircuitProof (zkValue this) metadata
                                  exactGeolocationMetadataProof')\<rparr>))))"

text \<open>
  A session is a sequence of calls on one driver. A call that throws leaves the driver as
  it was: every method assigns its fields only after the circuits it awaits have
  returned. \<open>combineProofs\<close>, \<open>exactGeoPoint\<close> and \<open>combinePointInPolygonProofs\<close>
  assign no field.
\<close>

datatype ('pk, 'sg, 'poly) call =
    CallAuthenticateFromIntegrationOracle 'pk 'sg
  | CallInPolygon 'poly
  | CallAttachMetadata string
  | CallExactGeoPoint

fun perform ::
  "('pk, 'sg, 'geo, 'osp, 'raw, 'poly, 'pip, 'ex, 'md) Circuits \<Rightarrow> ('pk, 'sg, 'poly) call \<Rightarrow>
   ('geo, 'raw, 'poly, 'pip, 'md) ZKGeoPointProver \<Rightarrow>
     error + ('geo, 'raw, 'poly, 'pip, 'md) ZKGeoPointProver" where
  "perform circuits (CallAuthenticateFromIntegrationOracle pk sg) this =
     authenticateFromIntegrationOracle circuits pk sg this"
| "perform circuits (CallInPolygon polygon0) this = inPolygon circuits polygon0 this"
| "perform circuits (CallAttachMetadata metadata) this = attachMetadata circuits metadata this"
| "perform circuits CallExactGeoPoint this =
     bindE (exactGeoPoint circuits this) (\<lambda>_. Inr this)"

fun session ::
  "('pk, 'sg, 'geo, 'osp, 'raw, 'poly, 'pip, 'ex, 'md) Circuits \<Rightarrow>
   ('geo, 'raw, 'poly, 'pip, 'md) ZKGeoPointProver \<Rightarrow> ('pk, 'sg, 'poly) call list \<Rightarrow>
     ('geo, 'raw, 'poly, 'pip, 'md) ZKGeoPointProver" where
  "session circuits this [] = this"
| "session circuits this (c # cs) =
     (case perform circuits c this of
        Inl e \<Rightarrow> session circuits this cs
      | Inr this' \<Rightarrow> session circuits this' cs)"

text \<open>Whether some call of the session to \<open>authenticateFromIntegrationOracle\<close> returned.\<close>

fun authenticationCompleted ::
  "('pk, 'sg, 'geo, 'osp, 'raw, 'poly, 'pip, 'ex, 'md) Circuits \<Rightarrow>
   ('geo, 'raw, 'poly, 'pip, 'md) ZKGeoPointProver \<Rightarrow> ('pk, 'sg, 'poly) call list \<Rightarrow> bool" where
  "authenticationCompleted circuits this [] = False"
| "authenticationCompleted circuits this (c # cs) =
     (case perform circuits c this of
        Inl e \<Rightarrow> authenticationCompleted circuits this cs
      | Inr this' \<Rightarrow>
          (case c of
             CallAuthenticateFromIntegrationOracle pk sg \<Rightarrow> True
           | _ \<Rightarrow> authenticationCompleted circuits this' cs))"

section \<open>Sequencing lemmas\<close>

lemma bindE_Inr [simp]: "bindE (Inr v) f = f v"
  by (simp add: bindE_def)

lemma bindE_Inl [simp]: "bindE (Inl e) f = Inl e"
  by (simp add: bindE_def)

lemma bindE_eq_Inr: "(bindE m f = Inr r) = (\<exists>v. m = Inr v \<and> f v = Inr r)"
  by (cases m) simp_all

lemma bindE_eq_Inl: "(bindE m f = Inl e) = (m = Inl e \<or> (\<exists>v. m = Inr v \<and> f v = Inl e))"
  by (cases m) simp_all

lemmas int64_ops = int64_sub_def int64_mul_def int64_add_def int64_div_def int64_check_def
  uint64_mul_def magnitude_def

lemmas prover_ops = provableIsInt64XGreaterThanY_def provableIsInt64XLessThanOrEqualY_def
  provableIsInt64XLessThanY_def provableIsInt64XEqualToZero_def

section \<open>The AND and OR combiners\<close>

lemma AND_output:
  assumes "isValidProof proof1" and "isValidProof proof2"
    and "CoordinateProofState.coordinatesCommitment (publicOutput proof1)
         = CoordinateProofState.coordinatesCommitment (publicOutput proof2)"
    and "polygonCommitment (publicOutput proof1) \<noteq> polygonCommitment (publicOutput proof2)"
  shows "AND poseidon proof1 proof2 =
     Inr \<lparr>polygonCommitment = poseidon [polygonCommitment (publicOutput proof1),
                                         polygonCommitment (publicOutput proof2)],
          CoordinateProofState.coordinatesCommitment =
            CoordinateProofState.coordinatesCommitment (publicOutput proof1),
          isInPolygon = isInPolygon (publicOutput proof1)\<rparr>"
  using assms by (simp add: AND_def assertThat_def verify_def)

text \<open>
  C1. The spec has the AND combiner succeed only when both proofs carry the same
  \<open>isInPolygon\<close> bit. The source computes \<open>expectedSecondProofIsInPolygon\<close> from the
  first proof and never compares it with the second: for two valid proofs of the same
  coordinates over different polygons, the first inside and the second outside, \<open>AND\<close>
  returns an output whose bit is the first proof's.
\<close>

theorem AND_accepts_polarity_mismatch:
  "AND poseidon
     \<lparr>publicOutput = \<lparr>polygonCommitment = 1, CoordinateProofState.coordinatesCommitment = 5,
                      isInPolygon = True\<rparr>,
      isValidProof = True\<rparr>
     \<lparr>publicOutput = \<lparr>polygonCommitment = 2, CoordinateProofState.coordinatesCommitment = 5,
                      isInPolygon = False\<rparr>,
      isValidProof = True\<rparr>
   = Inr \<lparr>polygonCommitment = poseidon [1, 2],
           CoordinateProofState.coordinatesCommitment = 5, isInPolygon = True\<rparr>"
  by (simp add: AND_def assertThat_def verify_def)

text \<open>
  C7. For two valid proofs with equal coordinate commitments and distinct polygon
  commitments, \<open>OR\<close> returns the disjunction of the two bits and the Poseidon hash of
  the two polygon commitments, in that order.
\<close>

theorem OR_output:
  assumes "isValidProof proof1" and "isValidProof proof2"
    and "CoordinateProofState.coordinatesCommitment (publicOutput proof1)
         = CoordinateProofState.coordinatesCommitment (publicOutput proof2)"
    and "polygonCommitment (publicOutput proof1) \<noteq> polygonCommitment (publicOutput proof2)"
  shows "OR poseidon proof1 proof2 =
     Inr \<lparr>polygonCommitment = poseidon [polygonCommitment (publicOutput proof1),
                                         polygonCommitment (publicOutput proof2)],
          CoordinateProofState.coordinatesCommitment =
            CoordinateProofState.coordinatesCommitment (publicOutput proof1),
          isInPolygon = (isInPolygon (publicOutput proof1) \<or> isInPolygon (publicOutput proof2))\<rparr>"
  using assms by (simp add: OR_def assertThat_def verify_def)

theorem OR_output_witness:
  "OR sum_list
     \<lparr>publicOutput = \<lparr>polygonCommitment = 11, CoordinateProofState.coordinatesCommitment = 5,
                      isInPolygon = False\<rparr>,
      isValidProof = True\<rparr>
     \<lparr>publicOutput = \<lparr>polygonCommitment = 12, CoordinateProofState.coordinatesCommitment = 5,
                      isInPolygon = True\<rparr>,
      isValidProof = True\<rparr>
   = Inr \<lparr>polygonCommitment = 23, CoordinateProofState.coordinatesCommitment = 5,
           isInPolygon = True\<rparr>"
  using OR_output [of
     "\<lparr>publicOutput = \<lparr>polygonCommitment = 11, CoordinateProofState.coordinatesCommitment = 5,
                       isInPolygon = False\<rparr>,
       isValidProof = True\<rparr>"
     "\<lparr>publicOutput = \<lparr>polygonCommitment = 12, CoordinateProofState.coordinatesCommitment = 5,
                       isInPolygon = True\<rparr>,
       isValidProof = True\<rparr>" sum_list]
  by simp

section \<open>The rollup combine\<close>

text \<open>
  C3. The spec folds each side of the combined accumulator independently. The
  source's last assignment stores the outside fold in \<open>newInsideCommitment\<close>, and the
  second outside step tests the inside commitment of the second proof: combining an
  accumulator that is outside polygon 3 with one that is inside polygon 2 returns 3 on
  both sides.
\<close>

theorem combine_inside_takes_outside:
  "combine poseidon
     \<lparr>publicOutput = \<lparr>insidePolygonCommitment = 0, outsidePolygonCommitment = 3,
                      coordinatesCommitment = 5\<rparr>,
      isValidProof = True\<rparr>
     \<lparr>publicOutput = \<lparr>insidePolygonCommitment = 2, outsidePolygonCommitment = 0,
                      coordinatesCommitment = 5\<rparr>,
      isValidProof = True\<rparr>
   = Inr \<lparr>insidePolygonCommitment = 3, outsidePolygonCommitment = 3,
           coordinatesCommitment = 5\<rparr>"
  by (simp add: combine_def assertThat_def verify_def)

section \<open>The coordinate commitment along compositions\<close>

lemma AND_Inr_coordinates:
  "AND poseidon proof1 proof2 = Inr r \<Longrightarrow>
     CoordinateProofState.coordinatesCommitment r
       = CoordinateProofState.coordinatesCommitment (publicOutput proof1)
     \<and> CoordinateProofState.coordinatesCommitment r
       = CoordinateProofState.coordinatesCommitment (publicOutput proof2)"
  by (auto simp add: AND_def bindE_def assertThat_def verify_def split: if_splits)

lemma OR_Inr_coordinates:
  "OR poseidon proof1 proof2 = Inr r \<Longrightarrow>
     CoordinateProofState.coordinatesCommitment r
       = CoordinateProofState.coordinatesCommitment (publicOutput proof1)
     \<and> CoordinateProofState.coordinatesCommitment r
       = CoordinateProofState.coordinatesCommitment (publicOutput proof2)"
  by (auto simp add: OR_def bindE_def assertThat_def verify_def split: if_splits)

lemma combine_Inr_coordinates:
  "combine poseidon acc1 acc2 = Inr s \<Longrightarrow>
     coordinatesCommitment s = coordinatesCommitment (publicOutput acc1)
     \<and> coordinatesCommitment s = coordinatesCommitment (publicOutput acc2)"
  unfolding combine_def bindE_def assertThat_def verify_def Let_def
  by (auto split: if_splits)

text \<open>
  C9. Whenever \<open>AND\<close>, \<open>OR\<close> or \<open>combine\<close> returns an output, its coordinate
  commitment is the first input's, and so (by the asserted equality) the second
  input's as well.
\<close>

theorem combiners_preserve_coordinatesCommitment:
  "(AND poseidon proof1 proof2 = Inr r \<longrightarrow>
      CoordinateProofState.coordinatesCommitment r
        = CoordinateProofState.coordinatesCommitment (publicOutput proof1)
      \<and> CoordinateProofState.coordinatesCommitment r
        = CoordinateProofState.coordinatesCommitment (publicOutput proof2))
   \<and> (OR poseidon proof1 proof2 = Inr r' \<longrightarrow>
      CoordinateProofState.coordinatesCommitment r'
        = CoordinateProofState.coordinatesCommitment (publicOutput proof1)
      \<and> CoordinateProofState.coordinatesCommitment r'
        = CoordinateProofState.coordinatesCommitment (publicOutput proof2))
   \<and> (combine poseidon acc1 acc2 = Inr s \<longrightarrow>
      coordinatesCommitment s = coordinatesCommitment (publicOutput acc1)
      \<and> coordinatesCommitment s = coordinatesCommitment (publicOutput acc2))"
  using AND_Inr_coordinates OR_Inr_coordinates combine_Inr_coordinates by blast

theorem combiners_preserve_coordinatesCommitment_witness:
  "AND sum_list
     \<lparr>publicOutput = \<lparr>polygonCommitment = 11, CoordinateProofState.coordinatesCommitment = 5,
                      isInPolygon = True\<rparr>, isValidProof = True\<rparr>
     \<lparr>publicOutput = \<lparr>polygonCommitment = 12, CoordinateProofState.coordinatesCommitment = 5,
                      isInPolygon = True\<rparr>, isValidProof = True\<rparr>
     = Inr \<lparr>polygonCommitment = 23, CoordinateProofState.coordinatesCommitment = 5,
             isInPolygon = True\<rparr>
   \<and> OR sum_list
     \<lparr>publicOutput = \<lparr>polygonCommitment = 11, CoordinateProofState.coordinatesCommitment = 5,
                      isInPolygon = True\<rparr>, isValidProof = True\<rparr>
     \<lparr>publicOutput = \<lparr>polygonCommitment = 12, CoordinateProofState.coordinatesCommitment = 5,
                      isInPolygon = True\<rparr>, isValidProof = True\<rparr>
     = Inr \<lparr>polygonCommitment = 23, CoordinateProofState.coordinatesCommitment = 5,
             isInPolygon = True\<rparr>
   \<and> combine sum_list
     \<lparr>publicOutput = \<lparr>insidePolygonCommitment = 2, outsidePolygonCommitment = 0,
                      coordinatesCommitment = 5\<rparr>, isValidProof = True\<rparr>
     \<lparr>publicOutput = \<lparr>insidePolygonCommitment = 0, outsidePolygonCommitment = 3,
                      coordinatesCommitment = 5\<rparr>, isValidProof = True\<rparr>
     = Inr \<lparr>insidePolygonCommitment = 3, outsidePolygonCommitment = 3,
             coordinatesCommitment = 5\<rparr>
   \<and> CoordinateProofState.coordinatesCommitment
        \<lparr>polygonCommitment = 23, CoordinateProofState.coordinatesCommitment = 5,
         isInPolygon = True\<rparr> = 5
   \<and> coordinatesCommitment
        \<lparr>insidePolygonCommitment = 3, outsidePolygonCommitment = 3,
         coordinatesCommitment = 5\<rparr> = 5"
  using combiners_preserve_coordinatesCommitment [of sum_list
     "\<lparr>publicOutput = \<lparr>polygonCommitment = 11, CoordinateProofState.coordinatesCommitment = 5,
                       isInPolygon = True\<rparr>, isValidProof = True\<rparr>"
     "\<lparr>publicOutput = \<lparr>polygonCommitment = 12, CoordinateProofState.coordinatesCommitment = 5,
                       isInPolygon = True\<rparr>, isValidProof = True\<rparr>"
     "\<lparr>polygonCommitment = 23, CoordinateProofState.coordinatesCommitment = 5,
       isInPolygon = True\<rparr>"
     "\<lparr>polygonCommitment = 23, CoordinateProofState.coordinatesCommitment = 5,
       isInPolygon = True\<rparr>"
     "\<lparr>publicOutput = \<lparr>insidePolygonCommitment = 2, outsidePolygonCommitment = 0,
                       coordinatesCommitment = 5\<rparr>, isValidProof = True\<rparr>"
     "\<lparr>publicOutput = \<lparr>insidePolygonCommitment = 0, outsidePolygonCommitment = 3,
                       coordinatesCommitment = 5\<rparr>, isValidProof = True\<rparr>"
     "\<lparr>insidePolygonCommitment = 3, outsidePolygonCommitment = 3,
       coordinatesCommitment = 5\<rparr>"]
  by (simp add: AND_def OR_def combine_def assertThat_def verify_def)

section \<open>Coordinate validation\<close>

lemma GeographicalPoint_assertIsValid_iff:
  "(GeographicalPoint_assertIsValid g = Inr ()) =
     (GeographicalPoint.factor g \<noteq> 0
      \<and> \<bar>latitude g\<bar> div \<bar>GeographicalPoint.factor g\<bar> \<le> 90
      \<and> \<bar>longitude g\<bar> \<le> 180
      \<and> \<bar>GeographicalPoint.factor g\<bar> \<le> 10 ^ 7)"
proof -
  have "\<bar>sgn a * sgn b * (\<bar>a\<bar> div \<bar>b\<bar>)\<bar> = \<bar>a\<bar> div \<bar>b\<bar>" if "b \<noteq> 0" for a b :: int
  proof (cases "a = 0")
    case True
    then show ?thesis by simp
  next
    case False
    have "0 \<le> \<bar>a\<bar> div \<bar>b\<bar>" by (simp add: div_int_pos_iff)
    with False that show ?thesis by (simp add: abs_mult abs_sgn_eq)
  qed
  then show ?thesis
    by (auto simp add: GeographicalPoint_assertIsValid_def assertThat_def int64_div_def
          magnitude_def bindE_eq_Inr split: if_splits)
qed

text \<open>
  C4. The spec has \<open>assertIsValid\<close> range-check latitude and longitude after scaling
  both down by the factor. The source divides only the latitude: the longitude's raw
  magnitude is compared with 180, so 5 degrees east at factor \<open>10^7\<close> is rejected.
\<close>

theorem assertIsValid_rejects_scaled_longitude:
  "GeographicalPoint_assertIsValid \<lparr>latitude = 0, longitude = 50000000, factor = 10000000\<rparr>
     = Inl AssertionFailed"
  by (simp add: GeographicalPoint_assertIsValid_def assertThat_def int64_div_def magnitude_def)

section \<open>Int64 arithmetic inside the coordinate domain\<close>

lemma int64_check_ok: "\<bar>v\<bar> < 18446744073709551616 \<Longrightarrow> int64_check v = Inr v"
  by (simp add: int64_check_def abs_less_iff)

lemma int64_check_Inr: "(int64_check v = Inr w) = (w = v \<and> - (2 ^ 64) < v \<and> v < 2 ^ 64)"
  by (auto simp add: int64_check_def)

lemma int64_check_Inl:
  "(int64_check v = Inl e) = (e = Overflow \<and> \<not> (- (2 ^ 64) < v \<and> v < 2 ^ 64))"
  by (auto simp add: int64_check_def)

lemma abs_mult_bound:
  fixes a b :: int
  assumes "\<bar>a\<bar> \<le> A" and "\<bar>b\<bar> \<le> B"
  shows "\<bar>a * b\<bar> \<le> A * B"
proof -
  have "\<bar>a * b\<bar> = \<bar>a\<bar> * \<bar>b\<bar>" by (simp add: abs_mult)
  also have "\<dots> \<le> A * B"
    using assms by (intro mult_mono) auto
  finally show ?thesis .
qed

lemma int64_sub_ok:
  "\<bar>a\<bar> \<le> 1800000000 \<Longrightarrow> \<bar>b\<bar> \<le> 1800000000 \<Longrightarrow> int64_sub a b = Inr (a - b)"
  unfolding int64_sub_def by (rule int64_check_ok) linarith

lemma int64_mul_ok:
  assumes "\<bar>a\<bar> \<le> 3600000000" and "\<bar>b\<bar> \<le> 3600000000"
  shows "int64_mul a b = Inr (a * b)"
proof -
  have "\<bar>a * b\<bar> \<le> 3600000000 * 3600000000"
    using assms by (rule abs_mult_bound)
  then show ?thesis
    unfolding int64_mul_def by (intro int64_check_ok) simp
qed

lemma uint64_mul_ok:
  assumes "\<bar>a\<bar> \<le> 3600000000" and "\<bar>b\<bar> \<le> 3600000000"
  shows "uint64_mul (magnitude a) (magnitude b) = Inr (magnitude a * magnitude b)"
proof -
  have "\<bar>a * b\<bar> \<le> 3600000000 * 3600000000"
    using assms by (rule abs_mult_bound)
  moreover have "int (magnitude a * magnitude b) = \<bar>a * b\<bar>"
    by (simp add: magnitude_def abs_mult)
  ultimately have "int (magnitude a * magnitude b) < 18446744073709551616" by simp
  then have "magnitude a * magnitude b < 18446744073709551616" by linarith
  then show ?thesis by (simp add: uint64_mul_def)
qed

lemma truncated_quotient_bound:
  fixes n d :: int
  shows "\<bar>sgn n * sgn d * (\<bar>n\<bar> div \<bar>d\<bar>)\<bar> \<le> \<bar>n\<bar>"
proof -
  have le: "\<bar>n\<bar> div \<bar>d\<bar> \<le> \<bar>n\<bar>"
  proof (cases "n = 0")
    case True
    then show ?thesis by simp
  next
    case False
    then have "0 < \<bar>n\<bar>" by simp
    then show ?thesis by (rule int_div_le_self)
  qed
  have nonneg: "0 \<le> \<bar>n\<bar> div \<bar>d\<bar>" by (simp add: div_int_pos_iff)
  have "\<bar>sgn n * sgn d * (\<bar>n\<bar> div \<bar>d\<bar>)\<bar> = \<bar>sgn n\<bar> * \<bar>sgn d\<bar> * (\<bar>n\<bar> div \<bar>d\<bar>)"
    using nonneg by (simp add: abs_mult)
  also have "\<dots> \<le> \<bar>n\<bar> div \<bar>d\<bar>"
    using nonneg by (simp add: abs_sgn_eq)
  finally show ?thesis using le by linarith
qed

section \<open>One pass of the ray-casting loop\<close>

lemma rayCastIteration_in_domain:
  assumes vi: "withinCoordinateDomain vi" and vj: "withinCoordinateDomain vj"
    and y: "\<bar>y\<bar> \<le> 1800000000"
  shows "\<exists>it. rayCastIteration x y vi vj inside0 = Inr it"
proof -
  let ?xi = "latitude vi" and ?yi = "longitude vi"
  let ?xj = "latitude vj" and ?yj = "longitude vj"
  let ?n = "(?xj - ?xi) * (y - ?yi)"
  let ?d = "if ?yj - ?yi = 0 then 1 else ?yj - ?yi"
  from vi vj have b: "\<bar>?xi\<bar> \<le> 900000000" "\<bar>?yi\<bar> \<le> 1800000000"
      "\<bar>?xj\<bar> \<le> 900000000" "\<bar>?yj\<bar> \<le> 1800000000"
    by (simp_all add: withinCoordinateDomain_def)
  have l: "int64_sub ?xj ?xi = Inr (?xj - ?xi)"
    by (rule int64_sub_ok) (use b in linarith)+
  have r: "int64_sub y ?yi = Inr (y - ?yi)"
    by (rule int64_sub_ok) (use b y in linarith)+
  have d: "int64_sub ?yj ?yi = Inr (?yj - ?yi)"
    by (rule int64_sub_ok) (use b in linarith)+
  have lb: "\<bar>?xj - ?xi\<bar> \<le> 3600000000" using b by linarith
  have rb: "\<bar>y - ?yi\<bar> \<le> 3600000000" using b y by linarith
  have m: "uint64_mul (magnitude (?xj - ?xi)) (magnitude (y - ?yi))
             = Inr (magnitude (?xj - ?xi) * magnitude (y - ?yi))"
    using lb rb by (rule uint64_mul_ok)
  have n: "int64_mul (?xj - ?xi) (y - ?yi) = Inr ?n"
    using lb rb by (rule int64_mul_ok)
  have nb: "\<bar>?n\<bar> \<le> 12960000000000000000"
    using abs_mult_bound [OF lb rb] by simp
  define q where "q = sgn ?n * sgn ?d * (\<bar>?n\<bar> div \<bar>?d\<bar>)"
  have "?d \<noteq> 0" by simp
  then have dv: "int64_div ?n ?d = Inr q"
    unfolding int64_div_def q_def by (simp only: if_False)
  have "\<bar>q\<bar> \<le> \<bar>?n\<bar>"
    unfolding q_def by (rule truncated_quotient_bound)
  with nb b have "\<bar>q + ?xi\<bar> < 18446744073709551616"
    by linarith
  then have ad: "int64_add q ?xi = Inr (q + ?xi)"
    unfolding int64_add_def by (rule int64_check_ok)
  show ?thesis
    unfolding rayCastIteration_def Let_def l r d m n bindE_Inr
      provableIsInt64XEqualToZero_def dv ad
    by blast
qed

lemma rayCastIteration_error_is_overflow:
  "rayCastIteration x y vi vj inside0 = Inl e \<Longrightarrow> e = Overflow"
  unfolding rayCastIteration_def Let_def
  by (auto simp add: bindE_eq_Inl int64_sub_def int64_mul_def int64_add_def int64_check_Inl
        uint64_mul_def int64_div_def provableIsInt64XEqualToZero_def split: if_splits)

lemma rayCastIteration_horizontal_value:
  assumes "rayCastIteration x y vi vj inside0 = Inr it" and "longitude vj = longitude vi"
  shows "it = \<lparr>denominator = 1, jointCondition1 = False, jointCondition2 = False,
               isIntersect = False, inside = inside0\<rparr>"
  using assms unfolding rayCastIteration_def Let_def
  by (auto simp add: bindE_eq_Inr int64_sub_def int64_check_Inr
        provableIsInt64XEqualToZero_def provableIsInt64XGreaterThanY_def)

text \<open>
  C6. A pass of the loop body never fails by a division by zero. On a horizontal edge
  (\<open>yj = yi\<close>) the pass divides by 1, its second condition and its intersection bit are
  false, and the accumulator leaves as it entered; the only other outcome is an
  arithmetic overflow, which cannot happen inside the coordinate domain.
\<close>

theorem horizontal_edge_never_flips:
  "rayCastIteration x y vi vj inside0 \<noteq> Inl DivisionByZero
   \<and> (longitude vj = longitude vi \<longrightarrow>
        rayCastIteration x y vi vj inside0 = Inl Overflow
        \<or> rayCastIteration x y vi vj inside0 =
             Inr \<lparr>denominator = 1, jointCondition1 = False, jointCondition2 = False,
                  isIntersect = False, inside = inside0\<rparr>)
   \<and> (longitude vj = longitude vi \<and> withinCoordinateDomain vi \<and> withinCoordinateDomain vj
        \<and> \<bar>y\<bar> \<le> 1800000000 \<longrightarrow>
        rayCastIteration x y vi vj inside0 =
          Inr \<lparr>denominator = 1, jointCondition1 = False, jointCondition2 = False,
               isIntersect = False, inside = inside0\<rparr>)"
proof (intro conjI impI)
  show "rayCastIteration x y vi vj inside0 \<noteq> Inl DivisionByZero"
    using rayCastIteration_error_is_overflow by blast
next
  assume h: "longitude vj = longitude vi"
  show "rayCastIteration x y vi vj inside0 = Inl Overflow
        \<or> rayCastIteration x y vi vj inside0 =
             Inr \<lparr>denominator = 1, jointCondition1 = False, jointCondition2 = False,
                  isIntersect = False, inside = inside0\<rparr>"
  proof (cases "rayCastIteration x y vi vj inside0")
    case (Inl err)
    then show ?thesis using rayCastIteration_error_is_overflow by blast
  next
    case (Inr it)
    then show ?thesis using rayCastIteration_horizontal_value [OF Inr h] by simp
  qed
next
  assume a: "longitude vj = longitude vi \<and> withinCoordinateDomain vi \<and> withinCoordinateDomain vj
        \<and> \<bar>y\<bar> \<le> 1800000000"
  then obtain it where it: "rayCastIteration x y vi vj inside0 = Inr it"
    using rayCastIteration_in_domain by blast
  with a show "rayCastIteration x y vi vj inside0 =
          Inr \<lparr>denominator = 1, jointCondition1 = False, jointCondition2 = False,
               isIntersect = False, inside = inside0\<rparr>"
    using rayCastIteration_horizontal_value [OF it] by simp
qed

theorem horizontal_edge_never_flips_witness:
  "longitude \<lparr>latitude = 100000000, longitude = 0, factor = 10000000\<rparr>
     = longitude \<lparr>latitude = 0, longitude = 0, factor = 10000000\<rparr>
   \<and> withinCoordinateDomain \<lparr>latitude = 0, longitude = 0, factor = 10000000\<rparr>
   \<and> withinCoordinateDomain \<lparr>latitude = 100000000, longitude = 0, factor = 10000000\<rparr>
   \<and> \<bar>10000000 :: int\<bar> \<le> 1800000000
   \<and> rayCastIteration 10000000 10000000
        \<lparr>latitude = 0, longitude = 0, factor = 10000000\<rparr>
        \<lparr>latitude = 100000000, longitude = 0, factor = 10000000\<rparr> True
      = Inr \<lparr>denominator = 1, jointCondition1 = False, jointCondition2 = False,
             isIntersect = False, inside = True\<rparr>"
  using horizontal_edge_never_flips [of 10000000 10000000
        "\<lparr>latitude = 0, longitude = 0, factor = 10000000\<rparr>"
        "\<lparr>latitude = 100000000, longitude = 0, factor = 10000000\<rparr>" True]
  by (simp add: withinCoordinateDomain_def)

section \<open>The loop over a triangle\<close>

lemma rayCastLoop_triangle:
  "rayCastLoop x y [a, b, c] 0 (Suc (Suc 0)) inside0 =
     bindE (rayCastIteration x y a c inside0) (\<lambda>it1.
     bindE (rayCastIteration x y b a (inside it1)) (\<lambda>it2.
     bindE (rayCastIteration x y c b (inside it2)) (\<lambda>it3.
     Inr (inside it3))))"
proof -
  have s3: "rayCastLoop x y [a, b, c] (Suc (Suc (Suc 0))) j ins = Inr ins" for j ins
    by (subst rayCastLoop.simps) simp
  have s2: "rayCastLoop x y [a, b, c] (Suc (Suc 0)) (Suc 0) ins =
              bindE (rayCastIteration x y c b ins) (\<lambda>it. Inr (inside it))" for ins
    by (subst rayCastLoop.simps) (simp add: s3)
  have s1: "rayCastLoop x y [a, b, c] (Suc 0) 0 ins =
              bindE (rayCastIteration x y b a ins) (\<lambda>it.
              bindE (rayCastIteration x y c b (inside it)) (\<lambda>it. Inr (inside it)))" for ins
    by (subst rayCastLoop.simps) (simp add: s2)
  show ?thesis
    by (subst rayCastLoop.simps) (simp add: s1)
qed

lemma triangle_last_index: "length [a, b, c] - 1 = Suc (Suc 0)"
  by simp

lemma rayCastLoop_in_domain:
  assumes a: "withinCoordinateDomain a" and b: "withinCoordinateDomain b"
    and c: "withinCoordinateDomain c" and y: "\<bar>y\<bar> \<le> 1800000000"
  shows "\<exists>r. rayCastLoop x y [a, b, c] 0 (Suc (Suc 0)) inside0 = Inr r"
proof -
  obtain it1 where it1: "rayCastIteration x y a c inside0 = Inr it1"
    using rayCastIteration_in_domain [OF a c y] by blast
  obtain it2 where it2: "rayCastIteration x y b a (inside it1) = Inr it2"
    using rayCastIteration_in_domain [OF b a y] by blast
  obtain it3 where it3: "rayCastIteration x y c b (inside it2) = Inr it3"
    using rayCastIteration_in_domain [OF c b y] by blast
  show ?thesis
    unfolding rayCastLoop_triangle by (simp add: it1 it2 it3)
qed

lemma rayCastLoop_error_is_overflow:
  "rayCastLoop x y [a, b, c] 0 (Suc (Suc 0)) inside0 = Inl e \<Longrightarrow> e = Overflow"
  unfolding rayCastLoop_triangle
  by (auto simp add: bindE_eq_Inl dest: rayCastIteration_error_is_overflow)

text \<open>
  The spec's first two scenarios at factor \<open>10^7\<close>: the point \<open>(1, 1)\<close> is inside the
  triangle \<open>(0, 0)\<close>, \<open>(10, 0)\<close>, \<open>(0, 10)\<close>, and the point \<open>(10, 10)\<close> is outside.
\<close>

lemma scenario_inside:
  "isPointIn3PointPolygon
     \<lparr>NoncedGeographicalPoint.point =
        \<lparr>latitude = 10000000, longitude = 10000000, factor = 10000000\<rparr>, nonce = 3\<rparr>
     \<lparr>vertice1 = \<lparr>latitude = 0, longitude = 0, factor = 10000000\<rparr>,
      vertice2 = \<lparr>latitude = 100000000, longitude = 0, factor = 10000000\<rparr>,
      vertice3 = \<lparr>latitude = 0, longitude = 100000000, factor = 10000000\<rparr>\<rparr> = Inr True"
  by (simp add: isPointIn3PointPolygon_def isPointOnEdgeProvable_def rayCastLoop_triangle
        rayCastIteration_def int64_ops prover_ops)

lemma scenario_outside:
  "isPointIn3PointPolygon
     \<lparr>NoncedGeographicalPoint.point =
        \<lparr>latitude = 100000000, longitude = 100000000, factor = 10000000\<rparr>, nonce = 3\<rparr>
     \<lparr>vertice1 = \<lparr>latitude = 0, longitude = 0, factor = 10000000\<rparr>,
      vertice2 = \<lparr>latitude = 100000000, longitude = 0, factor = 10000000\<rparr>,
      vertice3 = \<lparr>latitude = 0, longitude = 100000000, factor = 10000000\<rparr>\<rparr> = Inr False"
  by (simp add: isPointIn3PointPolygon_def isPointOnEdgeProvable_def rayCastLoop_triangle
        rayCastIteration_def int64_ops prover_ops)

section \<open>Points on an edge\<close>

lemma isPointOnEdgeProvable_in_domain:
  assumes p: "withinCoordinateDomain (NoncedGeographicalPoint.point p)"
    and v1: "withinCoordinateDomain v1" and v2: "withinCoordinateDomain v2"
  shows "isPointOnEdgeProvable p v1 v2 = Inr (onEdge p v1 v2)"
proof -
  let ?x = "latitude (NoncedGeographicalPoint.point p)"
  let ?y = "longitude (NoncedGeographicalPoint.point p)"
  let ?x1 = "latitude v1" and ?y1 = "longitude v1"
  let ?x2 = "latitude v2" and ?y2 = "longitude v2"
  from p v1 v2 have b: "\<bar>?x\<bar> \<le> 900000000" "\<bar>?y\<bar> \<le> 1800000000"
      "\<bar>?x1\<bar> \<le> 900000000" "\<bar>?y1\<bar> \<le> 1800000000"
      "\<bar>?x2\<bar> \<le> 900000000" "\<bar>?y2\<bar> \<le> 1800000000"
    by (simp_all add: withinCoordinateDomain_def)
  have s1: "int64_sub ?x2 ?x1 = Inr (?x2 - ?x1)"
    by (rule int64_sub_ok) (use b in linarith)+
  have s2: "int64_sub ?x ?x1 = Inr (?x - ?x1)"
    by (rule int64_sub_ok) (use b in linarith)+
  have s3: "int64_sub ?y2 ?y1 = Inr (?y2 - ?y1)"
    by (rule int64_sub_ok) (use b in linarith)+
  have s4: "int64_sub ?y ?y1 = Inr (?y - ?y1)"
    by (rule int64_sub_ok) (use b in linarith)+
  have m1: "int64_mul (?x2 - ?x1) (?y - ?y1) = Inr ((?x2 - ?x1) * (?y - ?y1))"
    by (rule int64_mul_ok) (use b in linarith)+
  have m2: "int64_mul (?x - ?x1) (?y2 - ?y1) = Inr ((?x - ?x1) * (?y2 - ?y1))"
    by (rule int64_mul_ok) (use b in linarith)+
  show ?thesis
    unfolding isPointOnEdgeProvable_def Let_def s1 s2 s3 s4 bindE_Inr m1 m2
    by (auto simp add: onEdge_def edge_membership_def min_def max_def
          provableIsInt64XGreaterThanY_def provableIsInt64XLessThanOrEqualY_def)
qed

lemma isPointOnEdgeProvable_error_is_overflow:
  "isPointOnEdgeProvable p v1 v2 = Inl e \<Longrightarrow> e = Overflow"
  unfolding isPointOnEdgeProvable_def Let_def
  by (auto simp add: bindE_eq_Inl int64_sub_def int64_mul_def int64_check_Inl)

lemma atVertex_onEdge_start: "atVertex p v1 \<Longrightarrow> onEdge p v1 v2"
  by (simp add: atVertex_def onEdge_def edge_membership_def)

lemma atVertex_onEdge_end: "atVertex p v2 \<Longrightarrow> onEdge p v1 v2"
  by (simp add: atVertex_def onEdge_def edge_membership_def)

lemma isPointIn3PointPolygon_error_is_overflow:
  "isPointIn3PointPolygon p t = Inl e \<Longrightarrow> e = Overflow"
  unfolding isPointIn3PointPolygon_def Let_def triangle_last_index
  by (auto simp add: bindE_eq_Inl
        dest: isPointOnEdgeProvable_error_is_overflow rayCastLoop_error_is_overflow)

lemma isPointIn3PointPolygon_edge_not_outside:
  assumes "isPointOnEdgeProvable p (vertice1 t) (vertice2 t) = Inr True
         \<or> isPointOnEdgeProvable p (vertice2 t) (vertice3 t) = Inr True
         \<or> isPointOnEdgeProvable p (vertice3 t) (vertice1 t) = Inr True"
  shows "isPointIn3PointPolygon p t \<noteq> Inr False"
  using assms unfolding isPointIn3PointPolygon_def Let_def bindE_def
  by (auto split: sum.splits)

lemma isPointIn3PointPolygon_in_domain:
  assumes p: "withinCoordinateDomain (NoncedGeographicalPoint.point p)"
    and v1: "withinCoordinateDomain (vertice1 t)"
    and v2: "withinCoordinateDomain (vertice2 t)"
    and v3: "withinCoordinateDomain (vertice3 t)"
    and e: "onEdge p (vertice1 t) (vertice2 t) \<or> onEdge p (vertice2 t) (vertice3 t)
            \<or> onEdge p (vertice3 t) (vertice1 t)"
  shows "isPointIn3PointPolygon p t = Inr True"
proof -
  from p have y: "\<bar>longitude (NoncedGeographicalPoint.point p)\<bar> \<le> 1800000000"
    by (simp add: withinCoordinateDomain_def)
  obtain r where r: "rayCastLoop (latitude (NoncedGeographicalPoint.point p))
      (longitude (NoncedGeographicalPoint.point p)) [vertice1 t, vertice2 t, vertice3 t] 0
      (Suc (Suc 0)) False = Inr r"
    using rayCastLoop_in_domain [OF v1 v2 v3 y] by blast
  show ?thesis
    unfolding isPointIn3PointPolygon_def Let_def triangle_last_index
      isPointOnEdgeProvable_in_domain [OF p v1 v2]
      isPointOnEdgeProvable_in_domain [OF p v2 v3]
      isPointOnEdgeProvable_in_domain [OF p v3 v1] bindE_Inr r
    using e by auto
qed

text \<open>
  C5. A point of the coordinate domain that satisfies the spec's edge membership for one
  of the three edges of a triangle of the domain, or that coincides with one of its
  vertices, is classified inside: \<open>isPointIn3PointPolygon\<close> returns true whatever the
  ray-casting loop computed. For arbitrary \<open>Int64\<close> inputs, once the source's edge test
  holds for some edge the only outcomes are true and an arithmetic overflow.
\<close>

theorem edge_points_classified_inside:
  "(withinCoordinateDomain (NoncedGeographicalPoint.point p)
      \<and> withinCoordinateDomain (vertice1 t) \<and> withinCoordinateDomain (vertice2 t)
      \<and> withinCoordinateDomain (vertice3 t)
      \<and> (onEdge p (vertice1 t) (vertice2 t) \<or> onEdge p (vertice2 t) (vertice3 t)
          \<or> onEdge p (vertice3 t) (vertice1 t)
          \<or> atVertex p (vertice1 t) \<or> atVertex p (vertice2 t) \<or> atVertex p (vertice3 t))
      \<longrightarrow> isPointIn3PointPolygon p t = Inr True)
   \<and> (isPointOnEdgeProvable p (vertice1 t) (vertice2 t) = Inr True
        \<or> isPointOnEdgeProvable p (vertice2 t) (vertice3 t) = Inr True
        \<or> isPointOnEdgeProvable p (vertice3 t) (vertice1 t) = Inr True
      \<longrightarrow> isPointIn3PointPolygon p t = Inr True \<or> isPointIn3PointPolygon p t = Inl Overflow)"
proof (intro conjI impI)
  assume a: "withinCoordinateDomain (NoncedGeographicalPoint.point p)
      \<and> withinCoordinateDomain (vertice1 t) \<and> withinCoordinateDomain (vertice2 t)
      \<and> withinCoordinateDomain (vertice3 t)
      \<and> (onEdge p (vertice1 t) (vertice2 t) \<or> onEdge p (vertice2 t) (vertice3 t)
          \<or> onEdge p (vertice3 t) (vertice1 t)
          \<or> atVertex p (vertice1 t) \<or> atVertex p (vertice2 t) \<or> atVertex p (vertice3 t))"
  then have "onEdge p (vertice1 t) (vertice2 t) \<or> onEdge p (vertice2 t) (vertice3 t)
          \<or> onEdge p (vertice3 t) (vertice1 t)"
    using atVertex_onEdge_start atVertex_onEdge_end by blast
  with a show "isPointIn3PointPolygon p t = Inr True"
    by (intro isPointIn3PointPolygon_in_domain) simp_all
next
  assume e: "isPointOnEdgeProvable p (vertice1 t) (vertice2 t) = Inr True
        \<or> isPointOnEdgeProvable p (vertice2 t) (vertice3 t) = Inr True
        \<or> isPointOnEdgeProvable p (vertice3 t) (vertice1 t) = Inr True"
  show "isPointIn3PointPolygon p t = Inr True \<or> isPointIn3PointPolygon p t = Inl Overflow"
  proof (cases "isPointIn3PointPolygon p t")
    case (Inl err)
    then show ?thesis using isPointIn3PointPolygon_error_is_overflow by blast
  next
    case (Inr b)
    with isPointIn3PointPolygon_edge_not_outside [OF e] show ?thesis by (cases b) simp_all
  qed
qed

theorem edge_points_classified_inside_witness:
  "withinCoordinateDomain \<lparr>latitude = 0, longitude = 50000000, factor = 10000000\<rparr>
   \<and> withinCoordinateDomain \<lparr>latitude = 0, longitude = 0, factor = 10000000\<rparr>
   \<and> withinCoordinateDomain \<lparr>latitude = 100000000, longitude = 0, factor = 10000000\<rparr>
   \<and> withinCoordinateDomain \<lparr>latitude = 0, longitude = 100000000, factor = 10000000\<rparr>
   \<and> onEdge \<lparr>NoncedGeographicalPoint.point =
               \<lparr>latitude = 0, longitude = 50000000, factor = 10000000\<rparr>, nonce = 3\<rparr>
        \<lparr>latitude = 0, longitude = 100000000, factor = 10000000\<rparr>
        \<lparr>latitude = 0, longitude = 0, factor = 10000000\<rparr>
   \<and> isPointOnEdgeProvable
        \<lparr>NoncedGeographicalPoint.point =
           \<lparr>latitude = 0, longitude = 50000000, factor = 10000000\<rparr>, nonce = 3\<rparr>
        \<lparr>latitude = 0, longitude = 100000000, factor = 10000000\<rparr>
        \<lparr>latitude = 0, longitude = 0, factor = 10000000\<rparr> = Inr True
   \<and> isPointIn3PointPolygon
        \<lparr>NoncedGeographicalPoint.point =
           \<lparr>latitude = 0, longitude = 50000000, factor = 10000000\<rparr>, nonce = 3\<rparr>
        \<lparr>vertice1 = \<lparr>latitude = 0, longitude = 0, factor = 10000000\<rparr>,
         vertice2 = \<lparr>latitude = 100000000, longitude = 0, factor = 10000000\<rparr>,
         vertice3 = \<lparr>latitude = 0, longitude = 100000000, factor = 10000000\<rparr>\<rparr> = Inr True"
  using edge_points_classified_inside [of
        "\<lparr>NoncedGeographicalPoint.point =
           \<lparr>latitude = 0, longitude = 50000000, factor = 10000000\<rparr>, nonce = 3\<rparr>"
        "\<lparr>vertice1 = \<lparr>latitude = 0, longitude = 0, factor = 10000000\<rparr>,
         vertice2 = \<lparr>latitude = 100000000, longitude = 0, factor = 10000000\<rparr>,
         vertice3 = \<lparr>latitude = 0, longitude = 100000000, factor = 10000000\<rparr>\<rparr>"]
  by (simp add: withinCoordinateDomain_def onEdge_def edge_membership_def
        isPointOnEdgeProvable_def int64_ops prover_ops)

section \<open>The point-in-polygon method and its arguments\<close>

text \<open>
  C2. The spec has the point-in-polygon method assert, before any geometry, that every
  coordinate is valid and that the four factors agree. The source's method never calls
  the validation: a query point of latitude 500 and longitude 700 at factor 1, against a
  triangle whose vertices carry factor 10, is rejected by
  \<open>verifyProoveCoordinatesIn3dPolygonArguments\<close> and still obtains an output from
  \<open>proveCoordinatesIn3PointPolygon\<close>, with the inside bit set.
\<close>

theorem proveCoordinatesIn3PointPolygon_accepts_malformed:
  "proveCoordinatesIn3PointPolygon poseidon
     \<lparr>NoncedGeographicalPoint.point = \<lparr>latitude = 500, longitude = 700, factor = 1\<rparr>,
      nonce = 3\<rparr>
     \<lparr>vertice1 = \<lparr>latitude = 0, longitude = 0, factor = 10\<rparr>,
      vertice2 = \<lparr>latitude = 2000, longitude = 0, factor = 10\<rparr>,
      vertice3 = \<lparr>latitude = 0, longitude = 2000, factor = 10\<rparr>\<rparr>
   = Inr \<lparr>polygonCommitment = ThreePointPolygon_hash poseidon
             \<lparr>vertice1 = \<lparr>latitude = 0, longitude = 0, factor = 10\<rparr>,
              vertice2 = \<lparr>latitude = 2000, longitude = 0, factor = 10\<rparr>,
              vertice3 = \<lparr>latitude = 0, longitude = 2000, factor = 10\<rparr>\<rparr>,
           CoordinateProofState.coordinatesCommitment = NoncedGeographicalPoint_hash poseidon
             \<lparr>NoncedGeographicalPoint.point = \<lparr>latitude = 500, longitude = 700, factor = 1\<rparr>,
              nonce = 3\<rparr>,
           isInPolygon = True\<rparr>
   \<and> verifyProoveCoordinatesIn3dPolygonArguments
     \<lparr>NoncedGeographicalPoint.point = \<lparr>latitude = 500, longitude = 700, factor = 1\<rparr>,
      nonce = 3\<rparr>
     \<lparr>vertice1 = \<lparr>latitude = 0, longitude = 0, factor = 10\<rparr>,
      vertice2 = \<lparr>latitude = 2000, longitude = 0, factor = 10\<rparr>,
      vertice3 = \<lparr>latitude = 0, longitude = 2000, factor = 10\<rparr>\<rparr>
   = Inl AssertionFailed"
  by (simp add: proveCoordinatesIn3PointPolygon_def isPointIn3PointPolygon_def
        isPointOnEdgeProvable_def rayCastLoop_triangle rayCastIteration_def
        verifyProoveCoordinatesIn3dPolygonArguments_def NoncedGeographicalPoint_assertIsValid_def
        GeographicalPoint_assertIsValid_def assertThat_def int64_ops prover_ops)

section \<open>ZKCoordinate\<close>

text \<open>
  C10. Once the base constructor has built the number, the \<open>ZKCoordinate\<close> constructor
  throws exactly when the factor is greater than \<open>10^7\<close>, and otherwise returns the
  number unchanged: the value itself is never inspected, so 500 at factor 1 is accepted.
\<close>

theorem ZKCoordinate_throws_iff_factor_exceeds:
  assumes "zkNumber val = Inr this"
  shows "(ZKCoordinate zkNumber val = Inl (InvalidFactor (ZKNumber.factor this)))
           = (ZKNumber.factor this > 10 ^ 7)
       \<and> (ZKCoordinate zkNumber val = Inr this) = (ZKNumber.factor this \<le> 10 ^ 7)"
  using assms by (simp add: ZKCoordinate_def MAX_FACTOR_def)

theorem ZKCoordinate_throws_iff_factor_exceeds_witness:
  "ZKCoordinate (\<lambda>v::int. Inr \<lparr>normalized = v, ZKNumber.factor = 1\<rparr>) 500
     = Inr \<lparr>normalized = 500, ZKNumber.factor = 1\<rparr>
   \<and> ZKCoordinate (\<lambda>v::int. Inr \<lparr>normalized = v, ZKNumber.factor = 100000000\<rparr>) 123456789
     = Inl (InvalidFactor 100000000)"
  using ZKCoordinate_throws_iff_factor_exceeds
          [of "\<lambda>v::int. Inr \<lparr>normalized = v, ZKNumber.factor = 1\<rparr>" 500
              "\<lparr>normalized = 500, ZKNumber.factor = 1\<rparr>"]
        ZKCoordinate_throws_iff_factor_exceeds
          [of "\<lambda>v::int. Inr \<lparr>normalized = v, ZKNumber.factor = 100000000\<rparr>" 123456789
              "\<lparr>normalized = 123456789, ZKNumber.factor = 100000000\<rparr>"]
  by simp

section \<open>The driver's authentication state\<close>

lemma unauthenticated_perform:
  assumes "integrationOracleProof this = Undefined"
    and "perform circuits c this = Inr this'"
  shows "\<exists>pk sg. c = CallAuthenticateFromIntegrationOracle pk sg"
  using assms
  by (cases c)
     (simp_all add: inPolygon_def attachMetadata_def exactGeoPoint_def
        exactGeoPointForIntegrationOracle_def getIntegrationOracleProofOrError_def)

lemma session_unauthenticated:
  "integrationOracleProof this = Undefined \<Longrightarrow>
   \<not> authenticationCompleted circuits this cs \<Longrightarrow>
   integrationOracleProof (session circuits this cs) = Undefined"
proof (induction cs arbitrary: this)
  case Nil
  then show ?case by simp
next
  case (Cons c cs)
  show ?case
  proof (cases "perform circuits c this")
    case (Inl e)
    with Cons show ?thesis by simp
  next
    case (Inr this')
    with Cons.prems(1) obtain pk sg where "c = CallAuthenticateFromIntegrationOracle pk sg"
      using unauthenticated_perform by blast
    with Inr Cons.prems(2) show ?thesis by simp
  qed
qed

lemma exactGeoPoint_Undefined:
  "integrationOracleProof this = Undefined \<Longrightarrow>
   exactGeoPoint circuits this = Inl (Thrown ''Integration Oracle proof is not available. Please call authenticateFromIntegrationOracle first.'')"
  by (simp add: exactGeoPoint_def exactGeoPointForIntegrationOracle_def
        getIntegrationOracleProofOrError_def)

lemma exactGeoPoint_Object:
  "integrationOracleProof this = Object w \<Longrightarrow>
   exactGeoPoint circuits this =
     bindE (fromGeoPointProvider circuits (proofOf w))
       (\<lambda>r. Inr (ZKExactGeoPointCircuitProof (zkValue this) r))"
  by (simp add: exactGeoPoint_def exactGeoPointForIntegrationOracle_def
        getIntegrationOracleProofOrError_def)

text \<open>
  C8. On a driver built by the constructor, after any session in which no call to
  \<open>authenticateFromIntegrationOracle\<close> returned, \<open>exactGeoPoint\<close> throws and yields no
  proof. On a driver that holds an oracle provider proof, \<open>exactGeoPoint\<close> runs the
  exact-reveal circuit on that provider proof and wraps what the circuit returns.
\<close>

theorem exactGeoPoint_requires_authentication:
  "(\<not> authenticationCompleted circuits (newZKGeoPointProver g) cs \<longrightarrow>
      exactGeoPoint circuits (session circuits (newZKGeoPointProver g) cs)
        = Inl (Thrown ''Integration Oracle proof is not available. Please call authenticateFromIntegrationOracle first.''))
   \<and> (integrationOracleProof this = Object w \<longrightarrow>
      exactGeoPoint circuits' this =
        bindE (fromGeoPointProvider circuits' (proofOf w))
          (\<lambda>r. Inr (ZKExactGeoPointCircuitProof (zkValue this) r)))"
proof (intro conjI impI)
  assume "\<not> authenticationCompleted circuits (newZKGeoPointProver g) cs"
  then have "integrationOracleProof (session circuits (newZKGeoPointProver g) cs) = Undefined"
    by (intro session_unauthenticated) (simp_all add: newZKGeoPointProver_def)
  then show "exactGeoPoint circuits (session circuits (newZKGeoPointProver g) cs)
        = Inl (Thrown ''Integration Oracle proof is not available. Please call authenticateFromIntegrationOracle first.'')"
    by (rule exactGeoPoint_Undefined)
next
  assume "integrationOracleProof this = Object w"
  then show "exactGeoPoint circuits' this =
        bindE (fromGeoPointProvider circuits' (proofOf w))
          (\<lambda>r. Inr (ZKExactGeoPointCircuitProof (zkValue this) r))"
    by (rule exactGeoPoint_Object)
qed

theorem exactGeoPoint_requires_authentication_witness:
  "\<not> authenticationCompleted
       \<lparr>fromSignature = (\<lambda>(pk::nat) (sg::nat) (geo::nat). Inl InvalidProof),
        fromOracle = (\<lambda>(osp::nat) geo. Inr (osp + 1 :: nat)),
        proveGeoPointIn3PointPolygon = (\<lambda>raw (poly::nat). Inr (raw + poly :: nat)),
        isInside = (\<lambda>pip. True),
        fromGeoPointProvider = (\<lambda>raw. Inr (raw + 1 :: nat)),
        attachMetadataToGeoPoint = (\<lambda>raw md. Inr (raw :: nat))\<rparr>
       (newZKGeoPointProver 0)
       [CallAuthenticateFromIntegrationOracle 1 2, CallInPolygon 3, CallExactGeoPoint]
   \<and> exactGeoPoint
       \<lparr>fromSignature = (\<lambda>(pk::nat) (sg::nat) (geo::nat). Inl InvalidProof),
        fromOracle = (\<lambda>(osp::nat) geo. Inr (osp + 1 :: nat)),
        proveGeoPointIn3PointPolygon = (\<lambda>raw (poly::nat). Inr (raw + poly :: nat)),
        isInside = (\<lambda>pip. True),
        fromGeoPointProvider = (\<lambda>raw. Inr (raw + 1 :: nat)),
        attachMetadataToGeoPoint = (\<lambda>raw md. Inr (raw :: nat))\<rparr>
       (session
         \<lparr>fromSignature = (\<lambda>(pk::nat) (sg::nat) (geo::nat). Inl InvalidProof),
          fromOracle = (\<lambda>(osp::nat) geo. Inr (osp + 1 :: nat)),
          proveGeoPointIn3PointPolygon = (\<lambda>raw (poly::nat). Inr (raw + poly :: nat)),
          isInside = (\<lambda>pip. True),
          fromGeoPointProvider = (\<lambda>raw. Inr (raw + 1 :: nat)),
          attachMetadataToGeoPoint = (\<lambda>raw md. Inr (raw :: nat))\<rparr>
         (newZKGeoPointProver 0)
         [CallAuthenticateFromIntegrationOracle 1 2, CallInPolygon 3, CallExactGeoPoint])
     = Inl (Thrown ''Integration Oracle proof is not available. Please call authenticateFromIntegrationOracle first.'')
   \<and> integrationOracleProof
       (session
         \<lparr>fromSignature = (\<lambda>(pk::nat) (sg::nat) (geo::nat). Inr (pk + sg + geo :: nat)),
          fromOracle = (\<lambda>(osp::nat) geo. Inr (osp + 1 :: nat)),
          proveGeoPointIn3PointPolygon = (\<lambda>raw (poly::nat). Inr (raw + poly :: nat)),
          isInside = (\<lambda>pip. True),
          fromGeoPointProvider = (\<lambda>raw. Inr (raw + 1 :: nat)),
          attachMetadataToGeoPoint = (\<lambda>raw md. Inr (raw :: nat))\<rparr>
         (newZKGeoPointProver 0)
         [CallAuthenticateFromIntegrationOracle 1 2])
     = Object (ZKGeoPointProviderCircuitProof 4)
   \<and> exactGeoPoint
       \<lparr>fromSignature = (\<lambda>(pk::nat) (sg::nat) (geo::nat). Inr (pk + sg + geo :: nat)),
        fromOracle = (\<lambda>(osp::nat) geo. Inr (osp + 1 :: nat)),
        proveGeoPointIn3PointPolygon = (\<lambda>raw (poly::nat). Inr (raw + poly :: nat)),
        isInside = (\<lambda>pip. True),
        fromGeoPointProvider = (\<lambda>raw. Inr (raw + 1 :: nat)),
        attachMetadataToGeoPoint = (\<lambda>raw md. Inr (raw :: nat))\<rparr>
       (session
         \<lparr>fromSignature = (\<lambda>(pk::nat) (sg::nat) (geo::nat). Inr (pk + sg + geo :: nat)),
          fromOracle = (\<lambda>(osp::nat) geo. Inr (osp + 1 :: nat)),
          proveGeoPointIn3PointPolygon = (\<lambda>raw (poly::nat). Inr (raw + poly :: nat)),
          isInside = (\<lambda>pip. True),
          fromGeoPointProvider = (\<lambda>raw. Inr (raw + 1 :: nat)),
          attachMetadataToGeoPoint = (\<lambda>raw md. Inr (raw :: nat))\<rparr>
         (newZKGeoPointProver 0)
         [CallAuthenticateFromIntegrationOracle 1 2])
     = Inr (ZKExactGeoPointCircuitProof 0 5)"
  using exactGeoPoint_requires_authentication
    [of "\<lparr>fromSignature = (\<lambda>(pk::nat) (sg::nat) (geo::nat). Inl InvalidProof),
          fromOracle = (\<lambda>(osp::nat) geo. Inr (osp + 1 :: nat)),
          proveGeoPointIn3PointPolygon = (\<lambda>raw (poly::nat). Inr (raw + poly :: nat)),
          isInside = (\<lambda>pip. True),
          fromGeoPointProvider = (\<lambda>raw. Inr (raw + 1 :: nat)),
          attachMetadataToGeoPoint = (\<lambda>raw md. Inr (raw :: nat))\<rparr>"
        0 "[CallAuthenticateFromIntegrationOracle 1 2, CallInPolygon 3, CallExactGeoPoint]"
        "session
         \<lparr>fromSignature = (\<lambda>(pk::nat) (sg::nat) (geo::nat). Inr (pk + sg + geo :: nat)),
          fromOracle = (\<lambda>(osp::nat) geo. Inr (osp + 1 :: nat)),
          proveGeoPointIn3PointPolygon = (\<lambda>raw (poly::nat). Inr (raw + poly :: nat)),
          isInside = (\<lambda>pip. True),
          fromGeoPointProvider = (\<lambda>raw. Inr (raw + 1 :: nat)),
          attachMetadataToGeoPoint = (\<lambda>raw md. Inr (raw :: nat))\<rparr>
         (newZKGeoPointProver 0)
         [CallAuthenticateFromIntegrationOracle 1 2]"
        "ZKGeoPointProviderCircuitProof 4"
        "\<lparr>fromSignature = (\<lambda>(pk::nat) (sg::nat) (geo::nat). Inr (pk + sg + geo :: nat)),
          fromOracle = (\<lambda>(osp::nat) geo. Inr (osp + 1 :: nat)),
          proveGeoPointIn3PointPolygon = (\<lambda>raw (poly::nat). Inr (raw + poly :: nat)),
          isInside = (\<lambda>pip. True),
          fromGeoPointProvider = (\<lambda>raw. Inr (raw + 1 :: nat)),
          attachMetadataToGeoPoint = (\<lambda>raw md. Inr (raw :: nat))\<rparr>"]
  by (simp add: newZKGeoPointProver_def authenticateFromIntegrationOracle_def inPolygon_def
        exactGeoPoint_def exactGeoPointForIntegrationOracle_def
        getIntegrationOracleProofOrError_def Let_def)

end
